theory Spec2Isabelle
  imports Main "HOL-Library.Word" "HOL-Library.AList"
begin

unbundle bit_operations_syntax

section \<open>Python objects, classes and exceptions\<close>

text \<open>
  The module \<^verbatim>\<open>torch/fx/immutable_collections.py\<close> derives two classes from the builtin
  \<^verbatim>\<open>list\<close> and \<open>dict\<close> with the three-argument form of \<^verbatim>\<open>type\<close>. A class is modelled
  by its name, its single base and its namespace; the namespace is a Python \<^verbatim>\<open>dict\<close>, kept
  as an association list in insertion order. The values stored in a namespace are the
  function objects of the module: \<^verbatim>\<open>_no_mutation\<close> and the four lambdas. Isabelle names
  cannot start with an underscore, so the leading underscore of a module-private name
  is dropped.
\<close>

datatype builtin = PyList | PyDict

fun builtin_name :: "builtin \<Rightarrow> string" where
  "builtin_name PyList = ''list''"
| "builtin_name PyDict = ''dict''"

datatype func = NoMutation | ListHash | ListReduce | DictHash | DictReduce

datatype pytype = Builtin builtin | Class string builtin "(string \<times> func) list"

text \<open>\<^verbatim>\<open>t.__name__\<close>\<close>

fun type_name :: "pytype \<Rightarrow> string" where
  "type_name (Builtin b) = builtin_name b"
| "type_name (Class n b ns) = n"

text \<open>
  Attribute lookup on a type follows the method resolution order: the class's own
  namespace first, then its base. \<open>Some f\<close> is a function of this module found in the
  namespace; \<open>None\<close> means the class does not define the name, so whatever the base
  kind provides is inherited.
\<close>

fun lookup_attr :: "pytype \<Rightarrow> string \<Rightarrow> func option" where
  "lookup_attr (Builtin b) name = None"
| "lookup_attr (Class n b ns) name = map_of ns name"

text \<open>
  An object is its type and its contents. A list-like object holds its elements in
  order (\<open>'v list pyobj\<close>); a dict-like object holds its key/value pairs in insertion
  order, with pairwise different keys (\<open>('k \<times> 'v) list pyobj\<close>). Elements, keys and
  values are opaque: \<open>'k\<close> is a type of values a \<^verbatim>\<open>dict\<close> accepts as keys, and Python's
  \<^verbatim>\<open>==\<close> on them is the equality of the model.
\<close>

record 'p pyobj =
  ob_type :: pytype
  ob_payload :: 'p

datatype pyerror = NotImplementedError string | TypeError | AttributeError

subsection \<open>The builtin dict on association lists\<close>

text \<open>
  \<^verbatim>\<open>d[k] = v\<close> replaces the value of a key that is present and keeps its position, and
  appends a new key at the end: this is \<^const>\<open>AList.update\<close>. \<^verbatim>\<open>d.update(pairs)\<close> stores
  the pairs one after the other, and \<^verbatim>\<open>dict(pairs)\<close> does so starting from the empty dict.
\<close>

definition dict_update :: "('k \<times> 'v) list \<Rightarrow> ('k \<times> 'v) list \<Rightarrow> ('k \<times> 'v) list" where
  "dict_update d ps = fold (\<lambda>(k, v). AList.update k v) ps d"

definition py_dict :: "('k \<times> 'v) list \<Rightarrow> ('k \<times> 'v) list" where
  "py_dict ps = dict_update [] ps"

text \<open>
  \<^verbatim>\<open>dict.__eq__\<close>: the same number of items, and every key of the left operand is a key
  of the right one with an equal value. The order of the items plays no role.
\<close>

definition dict_contents_eq :: "('k \<times> 'v) list \<Rightarrow> ('k \<times> 'v) list \<Rightarrow> bool" where
  "dict_contents_eq a b =
     (length a = length b \<and> list_all (\<lambda>(k, v). map_of b k = Some v) a)"

section \<open>The immutable container factory\<close>

text \<open>
  \<^verbatim>\<open>
  _help_mutation = """\
  If you are attempting to modify the kwargs or args of a torch.fx.Node object,
  instead create a new copy of it and assign the copy to the node:
      new_args = ... # copy and mutate args
      node.args = new_args
  """
  \<close>
\<close>

definition help_mutation :: string where
  "help_mutation =
     ''If you are attempting to modify the kwargs or args of a torch.fx.Node object,\<newline>'' @
     ''instead create a new copy of it and assign the copy to the node:\<newline>'' @
     ''    new_args = ... # copy and mutate args\<newline>'' @
     ''    node.args = new_args\<newline>''"

text \<open>
  \<^verbatim>\<open>
  def _no_mutation(self, *args, **kwargs):
      raise NotImplementedError(
          f"'{type(self).__name__}' object does not support mutation. {_help_mutation}",
      )
  \<close>
  The function never returns: its result is an exception. Python binds the arguments
  of a call before the body runs. The first positional argument, which for a method
  call is the object, is bound to \<open>self\<close>; the other positional arguments go to
  \<^verbatim>\<open>*args\<close>, whatever their number, and the keyword arguments go to \<^verbatim>\<open>**kwargs\<close>. A
  keyword argument named \<open>self\<close> meets a parameter that is bound already: the call
  raises \<^verbatim>\<open>TypeError\<close> (multiple values for the argument \<open>self\<close>) and the body does
  not run. \<open>args\<close> are the positional arguments after the object, \<open>kwargs\<close> the
  keyword arguments with their names. \<open>CHR 0x27\<close> is the single quote.
\<close>

definition no_mutation :: "'p pyobj \<Rightarrow> 'x list \<Rightarrow> (string \<times> 'x) list \<Rightarrow> pyerror + 'r" where
  "no_mutation self args kwargs =
     (if ''self'' \<in> set (map fst kwargs) then Inl TypeError
      else Inl (NotImplementedError
             ([CHR 0x27] @ type_name (ob_type self) @ [CHR 0x27]
                @ '' object does not support mutation. '' @ help_mutation)))"

text \<open>
  \<^verbatim>\<open>
  def _create_immutable_container_class(base, mutable_functions, namespace=None):
      namespace = namespace or {}
      namespace.update((method, _no_mutation) for method in mutable_functions)
      container_class = type("immutable_" + base.__name__, (base,), namespace)
      return container_class
  \<close>
\<close>

definition create_immutable_container_class ::
  "builtin \<Rightarrow> string list \<Rightarrow> (string \<times> func) list option \<Rightarrow> pytype" where
  "create_immutable_container_class base mutable_functions namespace =
     (let namespace1 = (case namespace of None \<Rightarrow> [] | Some ns \<Rightarrow> ns);
          namespace2 = dict_update namespace1
                         (map (\<lambda>method. (method, NoMutation)) mutable_functions)
      in Class (''immutable_'' @ builtin_name base) base namespace2)"

text \<open>
  Modelled from the spec: \<^verbatim>\<open>torch.fx._compatibility.compatibility\<close> is not among the
  sources. The spec describes the type the factory produces as the immutable type
  itself, with no further step, so the decorator hands the class back as it is.
\<close>

definition compatibility :: "bool \<Rightarrow> pytype \<Rightarrow> pytype" where
  "compatibility is_backward_compatible cls = cls"

definition immutable_list :: pytype where
  "immutable_list =
     compatibility True
       (create_immutable_container_class PyList
          [''__delitem__'', ''__iadd__'', ''__imul__'', ''__setitem__'', ''append'',
           ''clear'', ''extend'', ''insert'', ''pop'', ''remove'', ''reverse'', ''sort'']
          (Some [(''__hash__'', ListHash), (''__reduce__'', ListReduce)]))"

definition immutable_dict :: pytype where
  "immutable_dict =
     compatibility True
       (create_immutable_container_class PyDict
          [''__delitem__'', ''__ior__'', ''__setitem__'', ''clear'', ''pop'', ''popitem'',
           ''setdefault'', ''update'']
          (Some [(''__hash__'', DictHash), (''__reduce__'', DictReduce)]))"

subsection \<open>Calling a method\<close>

text \<open>
  \<^verbatim>\<open>c.name(*args, **kwargs)\<close> looks \<open>name\<close> up on the type of \<open>c\<close>. When the lookup
  finds \<^verbatim>\<open>_no_mutation\<close>, that function is called with \<open>c\<close> as its first positional
  argument, followed by the positional and the keyword arguments of the call; the call
  yields its exception (from the body, or from binding the arguments) and the object
  as it was. Every other case (a lambda of the namespace, or a method inherited from
  the base kind, which may change the object) is left to \<open>rest\<close>. A call returns its
  outcome together with the object after the call.
\<close>

definition call_method ::
  "(func option \<Rightarrow> 'p pyobj \<Rightarrow> string \<Rightarrow> 'x list \<Rightarrow> (string \<times> 'x) list \<Rightarrow> (pyerror + 'r) \<times> 'p pyobj)
   \<Rightarrow> 'p pyobj \<Rightarrow> string \<Rightarrow> 'x list \<Rightarrow> (string \<times> 'x) list \<Rightarrow> (pyerror + 'r) \<times> 'p pyobj" where
  "call_method rest self name args kwargs =
     (case lookup_attr (ob_type self) name of
        Some NoMutation \<Rightarrow> (no_mutation self args kwargs, self)
      | found \<Rightarrow> rest found self name args kwargs)"

subsection \<open>Calling a type\<close>

text \<open>
  \<^verbatim>\<open>cls(*args)\<close> for a list-like class: the base kind allocates an empty object, then
  \<^verbatim>\<open>__init__\<close> is looked up on the class. The inherited \<^verbatim>\<open>list.__init__\<close> takes at most
  one iterable and stores what it yields, without calling any method of the object; an
  iterable is given by the list of the items it yields. \<^verbatim>\<open>_no_mutation\<close> stored under
  \<^verbatim>\<open>__init__\<close> would raise. A lambda of the module stored there would fail as well: it
  takes \<open>self\<close> alone, returns a value where \<^verbatim>\<open>__init__\<close> must return \<^verbatim>\<open>None\<close>, and the
  two lambdas written for dicts call \<^verbatim>\<open>self.items()\<close>, which a list does not have.
\<close>

definition call_list_type :: "pytype \<Rightarrow> 'v list list \<Rightarrow> pyerror + 'v list pyobj" where
  "call_list_type cls args =
     (let self = \<lparr>ob_type = cls, ob_payload = []\<rparr> in
      case lookup_attr cls ''__init__'' of
        Some NoMutation \<Rightarrow> no_mutation self args []
      | Some f \<Rightarrow>
          Inl (if args = [] \<and> (f = DictHash \<or> f = DictReduce) then AttributeError
               else TypeError)
      | None \<Rightarrow>
          (case args of
             [] \<Rightarrow> Inr self
           | [iterable] \<Rightarrow> Inr (self\<lparr>ob_payload := iterable\<rparr>)
           | _ \<Rightarrow> Inl TypeError))"

text \<open>
  The same for a dict-like class: the inherited \<^verbatim>\<open>dict.__init__\<close> takes at most one
  mapping or iterable of key/value pairs and stores the pairs in order.
\<close>

definition call_dict_type :: "pytype \<Rightarrow> ('k \<times> 'v) list list \<Rightarrow> pyerror + ('k \<times> 'v) list pyobj" where
  "call_dict_type cls args =
     (let self = \<lparr>ob_type = cls, ob_payload = []\<rparr> in
      case lookup_attr cls ''__init__'' of
        Some NoMutation \<Rightarrow> no_mutation self args []
      | Some f \<Rightarrow> Inl TypeError
      | None \<Rightarrow>
          (case args of
             [] \<Rightarrow> Inr self
           | [pairs] \<Rightarrow> Inr (self\<lparr>ob_payload := py_dict pairs\<rparr>)
           | _ \<Rightarrow> Inl TypeError))"

subsection \<open>Comparing with \<^verbatim>\<open>==\<close>\<close>

text \<open>
  \<^verbatim>\<open>a == b\<close> asks the type of \<open>b\<close> first when it is a proper subclass of the type of
  \<open>a\<close>, and the type of \<open>a\<close> otherwise. A class that does not define \<^verbatim>\<open>__eq__\<close> inherits
  the comparison of its base kind: element by element for lists, by keys and values for
  dicts. The functions of this module would raise if stored under \<^verbatim>\<open>__eq__\<close>.
\<close>

fun is_proper_subclass :: "pytype \<Rightarrow> pytype \<Rightarrow> bool" where
  "is_proper_subclass (Class n b ns) t = (t = Builtin b)"
| "is_proper_subclass (Builtin b) t = False"

definition list_eq :: "'v list pyobj \<Rightarrow> 'v list pyobj \<Rightarrow> pyerror + bool" where
  "list_eq a b =
     (let (first, other) = (if is_proper_subclass (ob_type b) (ob_type a) then (b, a) else (a, b)) in
      case lookup_attr (ob_type first) ''__eq__'' of
        None \<Rightarrow> Inr (ob_payload a = ob_payload b)
      | Some NoMutation \<Rightarrow> no_mutation first [other] []
      | Some f \<Rightarrow> Inl TypeError)"

definition dict_eq :: "('k \<times> 'v) list pyobj \<Rightarrow> ('k \<times> 'v) list pyobj \<Rightarrow> pyerror + bool" where
  "dict_eq a b =
     (let (first, other) = (if is_proper_subclass (ob_type b) (ob_type a) then (b, a) else (a, b)) in
      case lookup_attr (ob_type first) ''__eq__'' of
        None \<Rightarrow> Inr (dict_contents_eq (ob_payload a) (ob_payload b))
      | Some NoMutation \<Rightarrow> no_mutation first [other] []
      | Some f \<Rightarrow> Inl TypeError)"

subsection \<open>Hashing\<close>

text \<open>
  \<^verbatim>\<open>hash\<close> of a tuple is CPython's \<^verbatim>\<open>tuplehash\<close> (Objects/tupleobject.c, Python 3.8 and
  later, 64-bit build), an xxHash-style mix of the hashes of the items:
  \<^verbatim>\<open>
  Py_uhash_t acc = _PyHASH_XXPRIME_5;
  for (i = 0; i < len; i++) {
      Py_uhash_t lane = PyObject_Hash(item[i]);
      if (lane == (Py_uhash_t)-1) return -1;
      acc += lane * _PyHASH_XXPRIME_2;
      acc = _PyHASH_XXROTATE(acc);
      acc *= _PyHASH_XXPRIME_1;
  }
  acc += len ^ (_PyHASH_XXPRIME_5 ^ 3527539UL);
  if (acc == (Py_uhash_t)-1) return 1546275796;
  return acc;
  \<close>
  A hash is the 64-bit pattern of \<^verbatim>\<open>Py_hash_t\<close>. The items are given by the outcomes of
  hashing them, in order; the first item whose hash raises ends the computation with
  that exception.
\<close>

type_synonym py_hash = "64 word"

definition XXPRIME_1 :: py_hash where
  "XXPRIME_1 = 11400714785074694791"

definition XXPRIME_2 :: py_hash where
  "XXPRIME_2 = 14029467366897019727"

definition XXPRIME_5 :: py_hash where
  "XXPRIME_5 = 2870177450012600261"

definition XXROTATE :: "py_hash \<Rightarrow> py_hash" where
  "XXROTATE x = push_bit 31 x OR drop_bit 33 x"

fun tuplehash_lanes :: "py_hash \<Rightarrow> (pyerror + py_hash) list \<Rightarrow> pyerror + py_hash" where
  "tuplehash_lanes acc [] = Inr acc"
| "tuplehash_lanes acc (Inl e # items) = Inl e"
| "tuplehash_lanes acc (Inr lane # items) =
     tuplehash_lanes (XXROTATE (acc + lane * XXPRIME_2) * XXPRIME_1) items"

definition tuplehash :: "(pyerror + py_hash) list \<Rightarrow> pyerror + py_hash" where
  "tuplehash items =
     (case tuplehash_lanes XXPRIME_5 items of
        Inl e \<Rightarrow> Inl e
      | Inr acc \<Rightarrow>
          (let acc1 = acc + (of_nat (length items) XOR (XXPRIME_5 XOR 3527539))
           in Inr (if acc1 = - 1 then 1546275796 else acc1)))"

text \<open>
  \<^verbatim>\<open>hash\<close> of an \<^verbatim>\<open>int\<close> (CPython's \<^verbatim>\<open>long_hash\<close>): the value reduced modulo \<open>2\<^sup>6\<^sup>1 - 1\<close>
  with its sign kept, and -2 in place of -1. It is used for the concrete examples.
\<close>

definition long_hash :: "int \<Rightarrow> py_hash" where
  "long_hash n =
     (let x = sgn n * (\<bar>n\<bar> mod (2 ^ 61 - 1)) in if x = - 1 then - 2 else of_int x)"

text \<open>
  The two lambdas stored under \<^verbatim>\<open>__hash__\<close>:
  \<^verbatim>\<open>lambda self: hash(tuple(self))\<close> for \<^verbatim>\<open>immutable_list\<close> and
  \<^verbatim>\<open>lambda self: hash(tuple(self.items()))\<close> for \<^verbatim>\<open>immutable_dict\<close>.
  \<open>hv\<close> hashes an element or a value and may raise; \<open>hk\<close> hashes a key, which a dict
  accepted and which is therefore hashable. An item of a dict is the tuple of its key
  and its value.
\<close>

definition immutable_list_hash :: "('v \<Rightarrow> pyerror + py_hash) \<Rightarrow> 'v list pyobj \<Rightarrow> pyerror + py_hash" where
  "immutable_list_hash hv self = tuplehash (map hv (ob_payload self))"

definition immutable_dict_hash ::
  "('k \<Rightarrow> py_hash) \<Rightarrow> ('v \<Rightarrow> pyerror + py_hash) \<Rightarrow> ('k \<times> 'v) list pyobj \<Rightarrow> pyerror + py_hash" where
  "immutable_dict_hash hk hv self =
     tuplehash (map (\<lambda>(k, v). tuplehash [Inr (hk k), hv v]) (ob_payload self))"

text \<open>
  \<^verbatim>\<open>hash(c)\<close> looks \<^verbatim>\<open>__hash__\<close> up on the type of \<open>c\<close>. The builtin \<^verbatim>\<open>list\<close> and \<^verbatim>\<open>dict\<close>
  set \<^verbatim>\<open>__hash__\<close> to \<^verbatim>\<open>None\<close>: they, and a class that inherits it, are unhashable. A
  function that returns a tuple is refused as a hash, and iterating a dict yields its
  keys.
\<close>

definition hash_list :: "('v \<Rightarrow> pyerror + py_hash) \<Rightarrow> 'v list pyobj \<Rightarrow> pyerror + py_hash" where
  "hash_list hv c =
     (case lookup_attr (ob_type c) ''__hash__'' of
        None \<Rightarrow> Inl TypeError
      | Some NoMutation \<Rightarrow> no_mutation c ([] :: unit list) []
      | Some ListHash \<Rightarrow> immutable_list_hash hv c
      | Some ListReduce \<Rightarrow> Inl TypeError
      | Some DictHash \<Rightarrow> Inl AttributeError
      | Some DictReduce \<Rightarrow> Inl AttributeError)"

definition hash_dict ::
  "('k \<Rightarrow> py_hash) \<Rightarrow> ('v \<Rightarrow> pyerror + py_hash) \<Rightarrow> ('k \<times> 'v) list pyobj \<Rightarrow> pyerror + py_hash" where
  "hash_dict hk hv c =
     (case lookup_attr (ob_type c) ''__hash__'' of
        None \<Rightarrow> Inl TypeError
      | Some NoMutation \<Rightarrow> no_mutation c ([] :: unit list) []
      | Some ListHash \<Rightarrow> tuplehash (map (\<lambda>(k, v). Inr (hk k)) (ob_payload c))
      | Some ListReduce \<Rightarrow> Inl TypeError
      | Some DictHash \<Rightarrow> immutable_dict_hash hk hv c
      | Some DictReduce \<Rightarrow> Inl TypeError)"

subsection \<open>The reduction hooks\<close>

text \<open>
  The two lambdas stored under \<^verbatim>\<open>__reduce__\<close>:
  \<^verbatim>\<open>lambda self: (type(self), (tuple(self),))\<close> and
  \<^verbatim>\<open>lambda self: (type(self), (tuple(self.items()),))\<close>. A tuple is the list of its
  items, so the second component is the one-element list of arguments that holds the
  tuple of the contents.
\<close>

definition immutable_list_reduce :: "'v list pyobj \<Rightarrow> pytype \<times> 'v list list" where
  "immutable_list_reduce self = (ob_type self, [ob_payload self])"

definition immutable_dict_reduce :: "('k \<times> 'v) list pyobj \<Rightarrow> pytype \<times> ('k \<times> 'v) list list" where
  "immutable_dict_reduce self = (ob_type self, [ob_payload self])"

section \<open>The tree registration adapter\<close>

subsection \<open>The helpers of the tree registry\<close>

text \<open>
  A keypath token marks the position of a child in its parent: the index in a sequence,
  the key in a mapping.
\<close>

datatype sequence_key = SequenceKey nat

datatype 'k mapping_key = MappingKey 'k

text \<open>
  Modelled from the spec: \<^verbatim>\<open>torch.utils._pytree._list_flatten\<close> is not among the
  sources. "For the sequence type, children are its elements in order and context is
  empty/length-only"; the spec's example gives "a context encoding length 3".
\<close>

definition list_flatten :: "'v list pyobj \<Rightarrow> 'v list \<times> nat" where
  "list_flatten d = (ob_payload d, length (ob_payload d))"

text \<open>
  Modelled from the spec: \<^verbatim>\<open>torch.utils._pytree._list_unflatten\<close> is not among the
  sources. It is the inverse of flatten for the base kind: the plain list of the
  children, in their order. A context that does not fit the children is a violated
  precondition, which is not checked.
\<close>

definition list_unflatten :: "'v list \<Rightarrow> nat \<Rightarrow> 'v list pyobj" where
  "list_unflatten values context = \<lparr>ob_type = Builtin PyList, ob_payload = values\<rparr>"

text \<open>
  Modelled from the spec: \<^verbatim>\<open>torch.utils._pytree._list_flatten_with_keys\<close> is not among
  the sources. "Same decomposition but each child is paired with a keypath token
  identifying its position (numeric index for sequences, key value for mappings)".
\<close>

definition list_flatten_with_keys :: "'v list pyobj \<Rightarrow> (sequence_key \<times> 'v) list \<times> nat" where
  "list_flatten_with_keys d =
     (let (children, context) = list_flatten d
      in (map (\<lambda>(i, child). (SequenceKey i, child)) (enumerate 0 children), context))"

text \<open>
  Modelled from the spec: \<^verbatim>\<open>torch.utils._pytree._dict_flatten\<close> is not among the
  sources. "For the mapping type, children are the values in a canonical order and
  context is the matching ordered sequence of keys"; the order is the order of the
  mapping's items.
\<close>

definition dict_flatten :: "('k \<times> 'v) list pyobj \<Rightarrow> 'v list \<times> 'k list" where
  "dict_flatten d = (map snd (ob_payload d), map fst (ob_payload d))"

text \<open>
  Modelled from the spec: \<^verbatim>\<open>torch.utils._pytree._dict_unflatten\<close> is not among the
  sources. It is the inverse of flatten for the base kind: the plain dict that maps the
  keys of the context to the children, pairing them in order.
\<close>

definition dict_unflatten :: "'v list \<Rightarrow> 'k list \<Rightarrow> ('k \<times> 'v) list pyobj" where
  "dict_unflatten values context =
     \<lparr>ob_type = Builtin PyDict, ob_payload = py_dict (zip context values)\<rparr>"

text \<open>
  Modelled from the spec: \<^verbatim>\<open>torch.utils._pytree._dict_flatten_with_keys\<close> is not among
  the sources. The same decomposition as flatten, each child paired with its key.
\<close>

definition dict_flatten_with_keys :: "('k \<times> 'v) list pyobj \<Rightarrow> ('k mapping_key \<times> 'v) list \<times> 'k list" where
  "dict_flatten_with_keys d =
     (let (children, context) = dict_flatten d
      in (map (\<lambda>(k, child). (MappingKey k, child)) (zip context children), context))"

text \<open>
  Modelled from the spec: \<^verbatim>\<open>torch.utils._pytree.register_pytree_node\<close> is not among the
  sources. A type registration record "associates a container type with its
  flatten/flatten-with-keys/unflatten functions and a globally stable string
  identifier"; the arguments come in the order of the call in the source.
\<close>

record ('c, 'leaf, 'ctx, 'tok) registration =
  reg_type :: pytype
  flatten_fn :: "'c \<Rightarrow> 'leaf list \<times> 'ctx"
  unflatten_fn :: "'leaf list \<Rightarrow> 'ctx \<Rightarrow> pyerror + 'c"
  serialized_type_name :: string
  flatten_with_keys_fn :: "'c \<Rightarrow> ('tok \<times> 'leaf) list \<times> 'ctx"

definition register_pytree_node ::
  "pytype \<Rightarrow> ('c \<Rightarrow> 'leaf list \<times> 'ctx) \<Rightarrow> ('leaf list \<Rightarrow> 'ctx \<Rightarrow> pyerror + 'c) \<Rightarrow> string
   \<Rightarrow> ('c \<Rightarrow> ('tok \<times> 'leaf) list \<times> 'ctx) \<Rightarrow> ('c, 'leaf, 'ctx, 'tok) registration" where
  "register_pytree_node cls flatten unflatten name flatten_with_keys =
     \<lparr>reg_type = cls, flatten_fn = flatten, unflatten_fn = unflatten,
      serialized_type_name = name, flatten_with_keys_fn = flatten_with_keys\<rparr>"

subsection \<open>The functions of the module and its two registrations\<close>

text \<open>
  \<^verbatim>\<open>
  def _immutable_list_flatten(d):
      return _list_flatten(d)

  def _immutable_list_unflatten(values, context):
      return immutable_list(_list_unflatten(values, context))

  def _immutable_dict_flatten(d):
      return _dict_flatten(d)

  def _immutable_dict_unflatten(values, context):
      return immutable_dict(_dict_unflatten(values, context))
  \<close>
  Iterating a list yields its elements; a dict passed to \<^verbatim>\<open>dict\<close> yields its items.
\<close>

definition immutable_list_flatten :: "'v list pyobj \<Rightarrow> 'v list \<times> nat" where
  "immutable_list_flatten d = list_flatten d"

definition immutable_list_unflatten :: "'v list \<Rightarrow> nat \<Rightarrow> pyerror + 'v list pyobj" where
  "immutable_list_unflatten values context =
     call_list_type immutable_list [ob_payload (list_unflatten values context)]"

definition immutable_dict_flatten :: "('k \<times> 'v) list pyobj \<Rightarrow> 'v list \<times> 'k list" where
  "immutable_dict_flatten d = dict_flatten d"

definition immutable_dict_unflatten :: "'v list \<Rightarrow> 'k list \<Rightarrow> pyerror + ('k \<times> 'v) list pyobj" where
  "immutable_dict_unflatten values context =
     call_dict_type immutable_dict [ob_payload (dict_unflatten values context)]"

text \<open>
  \<^verbatim>\<open>
  register_pytree_node(
      immutable_list,
      _immutable_list_flatten,
      _immutable_list_unflatten,
      serialized_type_name="torch.fx.immutable_collections.immutable_list",
      flatten_with_keys_fn=_list_flatten_with_keys,
  )
  register_pytree_node(
      immutable_dict,
      _immutable_dict_flatten,
      _immutable_dict_unflatten,
      serialized_type_name="torch.fx.immutable_collections.immutable_dict",
      flatten_with_keys_fn=_dict_flatten_with_keys,
  )
  \<close>
\<close>

definition immutable_list_registration ::
  "('v list pyobj, 'v, nat, sequence_key) registration" where
  "immutable_list_registration =
     register_pytree_node immutable_list immutable_list_flatten immutable_list_unflatten
       ''torch.fx.immutable_collections.immutable_list'' list_flatten_with_keys"

definition immutable_dict_registration ::
  "(('k \<times> 'v) list pyobj, 'v, 'k list, 'k mapping_key) registration" where
  "immutable_dict_registration =
     register_pytree_node immutable_dict immutable_dict_flatten immutable_dict_unflatten
       ''torch.fx.immutable_collections.immutable_dict'' dict_flatten_with_keys"

section \<open>The namespaces of the two classes\<close>

lemma immutable_list_unfold:
  "immutable_list =
     Class ''immutable_list'' PyList
       [(''__hash__'', ListHash), (''__reduce__'', ListReduce),
        (''__delitem__'', NoMutation), (''__iadd__'', NoMutation), (''__imul__'', NoMutation),
        (''__setitem__'', NoMutation), (''append'', NoMutation), (''clear'', NoMutation),
        (''extend'', NoMutation), (''insert'', NoMutation), (''pop'', NoMutation),
        (''remove'', NoMutation), (''reverse'', NoMutation), (''sort'', NoMutation)]"
  by (simp add: immutable_list_def compatibility_def create_immutable_container_class_def
      dict_update_def)

lemma immutable_dict_unfold:
  "immutable_dict =
     Class ''immutable_dict'' PyDict
       [(''__hash__'', DictHash), (''__reduce__'', DictReduce),
        (''__delitem__'', NoMutation), (''__ior__'', NoMutation), (''__setitem__'', NoMutation),
        (''clear'', NoMutation), (''pop'', NoMutation), (''popitem'', NoMutation),
        (''setdefault'', NoMutation), (''update'', NoMutation)]"
  by (simp add: immutable_dict_def compatibility_def create_immutable_container_class_def
      dict_update_def)

lemma immutable_types_differ: "immutable_list \<noteq> immutable_dict"
  by (simp add: immutable_list_unfold immutable_dict_unfold)

lemma lookup_blocked_list:
  assumes "op \<in> set [''__delitem__'', ''__iadd__'', ''__imul__'', ''__setitem__'', ''append'',
             ''clear'', ''extend'', ''insert'', ''pop'', ''remove'', ''reverse'', ''sort'']"
  shows "lookup_attr immutable_list op = Some NoMutation"
  using assms by (auto simp: immutable_list_unfold)

lemma lookup_blocked_dict:
  assumes "op \<in> set [''__delitem__'', ''__ior__'', ''__setitem__'', ''clear'', ''pop'',
             ''popitem'', ''setdefault'', ''update'']"
  shows "lookup_attr immutable_dict op = Some NoMutation"
  using assms by (auto simp: immutable_dict_unfold)

lemma call_method_blocked:
  assumes "lookup_attr (ob_type c) op = Some NoMutation"
  shows "call_method rest c op args kwargs = (no_mutation c args kwargs, c)"
  using assms by (simp add: call_method_def)

lemma lookup_special_list:
  "lookup_attr immutable_list ''__init__'' = None"
  "lookup_attr immutable_list ''__eq__'' = None"
  "lookup_attr immutable_list ''__hash__'' = Some ListHash"
  "lookup_attr immutable_list ''__reduce__'' = Some ListReduce"
  by (simp_all add: immutable_list_unfold)

lemma lookup_special_dict:
  "lookup_attr immutable_dict ''__init__'' = None"
  "lookup_attr immutable_dict ''__eq__'' = None"
  "lookup_attr immutable_dict ''__hash__'' = Some DictHash"
  "lookup_attr immutable_dict ''__reduce__'' = Some DictReduce"
  by (simp_all add: immutable_dict_unfold)

section \<open>Facts about the builtin dict\<close>

lemma update_fresh_key:
  "k \<notin> fst ` set al \<Longrightarrow> AList.update k v al = al @ [(k, v)]"
  by (induction al) auto

lemma dict_update_distinct:
  "distinct (map fst (d @ ps)) \<Longrightarrow> dict_update d ps = d @ ps"
proof (induction ps arbitrary: d)
  case Nil
  then show ?case by (simp add: dict_update_def)
next
  case (Cons p ps)
  obtain k v where p: "p = (k, v)" by (cases p)
  from Cons.prems p have fresh: "k \<notin> fst ` set d"
    by auto
  from Cons.prems p have "distinct (map fst ((d @ [(k, v)]) @ ps))"
    by auto
  then have "dict_update (d @ [(k, v)]) ps = (d @ [(k, v)]) @ ps"
    by (rule Cons.IH)
  with fresh p show ?case
    by (simp add: dict_update_def update_fresh_key)
qed

lemma py_dict_distinct: "distinct (map fst ps) \<Longrightarrow> py_dict ps = ps"
  using dict_update_distinct [of "[]" ps] by (simp add: py_dict_def)

lemma distinct_dict_update:
  "distinct (map fst d) \<Longrightarrow> distinct (map fst (dict_update d ps))"
proof (induction ps arbitrary: d)
  case Nil
  then show ?case by (simp add: dict_update_def)
next
  case (Cons p ps)
  obtain k v where p: "p = (k, v)" by (cases p)
  from Cons.prems have "distinct (map fst (AList.update k v d))"
    by (simp add: distinct_update)
  then have "distinct (map fst (dict_update (AList.update k v d) ps))"
    by (rule Cons.IH)
  with p show ?case
    by (simp add: dict_update_def)
qed

lemma distinct_py_dict: "distinct (map fst (py_dict ps))"
  by (simp add: py_dict_def distinct_dict_update)

lemma dict_contents_eq_refl:
  "distinct (map fst d) \<Longrightarrow> dict_contents_eq d d"
  by (auto simp: dict_contents_eq_def list_all_iff)

section \<open>Constructing and comparing instances\<close>

lemma call_immutable_list:
  "call_list_type immutable_list [xs] = Inr \<lparr>ob_type = immutable_list, ob_payload = xs\<rparr>"
  by (simp add: call_list_type_def lookup_special_list)

lemma call_immutable_dict:
  "call_dict_type immutable_dict [ps] = Inr \<lparr>ob_type = immutable_dict, ob_payload = py_dict ps\<rparr>"
  by (simp add: call_dict_type_def lookup_special_dict)

lemma list_eq_same_type:
  "ob_type a = immutable_list \<Longrightarrow> ob_type b = immutable_list \<Longrightarrow>
   list_eq a b = Inr (ob_payload a = ob_payload b)"
  by (simp add: list_eq_def lookup_special_list immutable_list_unfold)

lemma dict_eq_same_type:
  "ob_type a = immutable_dict \<Longrightarrow> ob_type b = immutable_dict \<Longrightarrow>
   dict_eq a b = Inr (dict_contents_eq (ob_payload a) (ob_payload b))"
  by (simp add: dict_eq_def lookup_special_dict immutable_dict_unfold)

lemma pyobj_eqI:
  "ob_type (x :: 'p pyobj) = t \<Longrightarrow> \<lparr>ob_type = t, ob_payload = ob_payload x\<rparr> = x"
  by (cases x) simp

section \<open>Facts about flattening with keys\<close>

lemma map_snd_enumerate_tokens:
  "map snd (map (\<lambda>(i, child). (SequenceKey i, child)) (enumerate n xs)) = xs"
  by (induction xs arbitrary: n) simp_all

lemma map_fst_enumerate_tokens:
  "map fst (map (\<lambda>(i, child). (SequenceKey i, child)) (enumerate n xs))
     = map SequenceKey [n..<n + length xs]"
proof -
  have "map fst (map (\<lambda>(i, child). (SequenceKey i, child)) ys) = map SequenceKey (map fst ys)"
    for ys :: "(nat \<times> 'a) list"
    by (induction ys) auto
  then show ?thesis
    by (simp add: map_fst_enumerate del: map_map)
qed

lemma map_tokens_zip:
  "map (\<lambda>(k, child). (MappingKey k, child)) (zip (map fst ps) (map snd ps))
     = map (\<lambda>(k, v). (MappingKey k, v)) ps"
  by (simp add: zip_map_fst_snd)

section \<open>Facts about hashing\<close>

lemma long_hash_small: "long_hash 1 = 1" "long_hash 2 = 2" "long_hash 3 = 3"
  by (simp_all add: long_hash_def)

lemma hash_dict_12:
  "hash_dict long_hash (Inr \<circ> long_hash)
     \<lparr>ob_type = immutable_dict, ob_payload = [(1 :: int, 1 :: int), (2, 2)]\<rparr>
   = Inr 9670287953704487854"
  by (simp add: hash_dict_def lookup_special_dict immutable_dict_hash_def long_hash_small
      tuplehash_def XXROTATE_def XXPRIME_1_def XXPRIME_2_def XXPRIME_5_def)

lemma hash_dict_21:
  "hash_dict long_hash (Inr \<circ> long_hash)
     \<lparr>ob_type = immutable_dict, ob_payload = [(2 :: int, 2 :: int), (1, 1)]\<rparr>
   = Inr 10511692838880796381"
  by (simp add: hash_dict_def lookup_special_dict immutable_dict_hash_def long_hash_small
      tuplehash_def XXROTATE_def XXPRIME_1_def XXPRIME_2_def XXPRIME_5_def)

lemma dict_eq_12_21:
  "dict_eq \<lparr>ob_type = immutable_dict, ob_payload = [(1 :: int, 1 :: int), (2, 2)]\<rparr>
     \<lparr>ob_type = immutable_dict, ob_payload = [(2, 2), (1, 1)]\<rparr> = Inr True"
  by (simp add: dict_eq_same_type dict_contents_eq_def)

lemma isl_tuplehash_lanes:
  "isl (tuplehash_lanes acc items) \<longleftrightarrow> (\<exists>r \<in> set items. isl r)"
proof (induction items arbitrary: acc)
  case Nil
  then show ?case by simp
next
  case (Cons r items)
  then show ?case by (cases r) simp_all
qed

lemma isl_tuplehash: "isl (tuplehash items) \<longleftrightarrow> (\<exists>r \<in> set items. isl r)"
proof -
  have "isl (tuplehash items) \<longleftrightarrow> isl (tuplehash_lanes XXPRIME_5 items)"
    by (simp add: tuplehash_def Let_def split: sum.split)
  then show ?thesis
    by (simp add: isl_tuplehash_lanes)
qed

lemma isl_tuplehash_map:
  "isl (tuplehash (map f xs)) \<longleftrightarrow> (\<exists>x \<in> set xs. isl (f x))"
  by (simp add: isl_tuplehash)

lemma hash_immutable_list:
  "ob_type c = immutable_list \<Longrightarrow> hash_list hv c = tuplehash (map hv (ob_payload c))"
  by (simp add: hash_list_def lookup_special_list immutable_list_hash_def)

lemma hash_immutable_dict:
  "ob_type m = immutable_dict \<Longrightarrow>
   hash_dict hk hv m = tuplehash (map (\<lambda>(k, v). tuplehash [Inr (hk k), hv v]) (ob_payload m))"
  by (simp add: hash_dict_def lookup_special_dict immutable_dict_hash_def)

section \<open>Blocked operations\<close>

text \<open>
  C2. Every operation named in the blocked set of \<^verbatim>\<open>immutable_list\<close>, called on any
  instance of \<^verbatim>\<open>immutable_list\<close>, and every operation named in the blocked set of
  \<^verbatim>\<open>immutable_dict\<close>, called on any instance of \<^verbatim>\<open>immutable_dict\<close>, leaves the object as
  it was: same type, same elements or key/value pairs, hence same length. With any
  tuple of positional arguments, and any keyword arguments none of which is named
  \<open>self\<close>, the call raises the \<^verbatim>\<open>NotImplementedError\<close> of \<^verbatim>\<open>_no_mutation\<close> (the spec's
  \<^verbatim>\<open>MutationDenied\<close>). A keyword argument named \<open>self\<close> cannot be bound, and the call
  raises \<^verbatim>\<open>TypeError\<close> instead. This holds whatever the other methods of the class do.
\<close>

theorem blocked_operation_raises_and_keeps_state:
  assumes "(ob_type c = immutable_list \<and>
            op \<in> set [''__delitem__'', ''__iadd__'', ''__imul__'', ''__setitem__'', ''append'',
              ''clear'', ''extend'', ''insert'', ''pop'', ''remove'', ''reverse'', ''sort''])
         \<or> (ob_type c = immutable_dict \<and>
            op \<in> set [''__delitem__'', ''__ior__'', ''__setitem__'', ''clear'', ''pop'',
              ''popitem'', ''setdefault'', ''update''])"
  shows "snd (call_method rest c op args kwargs) = c
       \<and> (''self'' \<notin> set (map fst kwargs) \<longrightarrow>
            (\<exists>message. call_method rest c op args kwargs = (Inl (NotImplementedError message), c)))
       \<and> (''self'' \<in> set (map fst kwargs) \<longrightarrow>
            call_method rest c op args kwargs = (Inl TypeError, c))"
proof -
  from assms have "lookup_attr (ob_type c) op = Some NoMutation"
    using lookup_blocked_list [of op] lookup_blocked_dict [of op] by metis
  then have "call_method rest c op args kwargs = (no_mutation c args kwargs, c)"
    by (rule call_method_blocked)
  then show ?thesis
    by (simp add: no_mutation_def)
qed

text \<open>
  The witness: \<^verbatim>\<open>append(4)\<close> on the immutable list of 1, 2, 3, where an unblocked method
  would have appended its arguments, and \<^verbatim>\<open>append(self=5)\<close> on the same list.
\<close>

theorem blocked_operation_raises_and_keeps_state_witness:
  "(\<exists>message.
     call_method (\<lambda>found self name args kwargs.
                    (Inr (), self\<lparr>ob_payload := ob_payload self @ args\<rparr>))
       \<lparr>ob_type = immutable_list, ob_payload = [1, 2, 3 :: int]\<rparr> ''append'' [4] []
     = (Inl (NotImplementedError message),
        \<lparr>ob_type = immutable_list, ob_payload = [1, 2, 3]\<rparr>))
 \<and> call_method (\<lambda>found self name args kwargs.
                    (Inr (), self\<lparr>ob_payload := ob_payload self @ args\<rparr>))
       \<lparr>ob_type = immutable_list, ob_payload = [1, 2, 3 :: int]\<rparr> ''append'' [] [(''self'', 5)]
     = (Inl TypeError, \<lparr>ob_type = immutable_list, ob_payload = [1, 2, 3]\<rparr>)"
proof -
  let ?c = "\<lparr>ob_type = immutable_list, ob_payload = [1, 2, 3 :: int]\<rparr>"
  let ?rest = "\<lambda>(found :: func option) (self :: int list pyobj) (name :: string)
                 (args :: int list) (kwargs :: (string \<times> int) list).
                 (Inr () :: pyerror + unit, self\<lparr>ob_payload := ob_payload self @ args\<rparr>)"
  have h: "(ob_type ?c = immutable_list \<and>
            ''append'' \<in> set [''__delitem__'', ''__iadd__'', ''__imul__'', ''__setitem__'', ''append'',
              ''clear'', ''extend'', ''insert'', ''pop'', ''remove'', ''reverse'', ''sort''])
         \<or> (ob_type ?c = immutable_dict \<and>
            ''append'' \<in> set [''__delitem__'', ''__ior__'', ''__setitem__'', ''clear'', ''pop'',
              ''popitem'', ''setdefault'', ''update''])"
    by simp
  have positional: "''self'' \<notin> set (map fst ([] :: (string \<times> int) list))"
    by simp
  have keyword: "''self'' \<in> set (map fst [(''self'', 5 :: int)])"
    by simp
  from blocked_operation_raises_and_keeps_state [of ?c "''append''" ?rest "[4]" "[]", OF h]
    positional
  have "\<exists>message. call_method ?rest ?c ''append'' [4] []
          = (Inl (NotImplementedError message), ?c)"
    by blast
  moreover
  from blocked_operation_raises_and_keeps_state
    [of ?c "''append''" ?rest "[]" "[(''self'', 5)]", OF h] keyword
  have "call_method ?rest ?c ''append'' [] [(''self'', 5)] = (Inl TypeError, ?c)"
    by blast
  ultimately show ?thesis
    by blast
qed

text \<open>
  C3 as stated fails: the error says which type was involved, but not which operation.
  \<^verbatim>\<open>_no_mutation\<close> receives the object and the arguments only, and the error raised for
  \<^verbatim>\<open>append\<close> is, character for character, the error raised for \<^verbatim>\<open>pop\<close>.
\<close>

theorem message_same_for_every_operation:
  "fst (call_method (\<lambda>found self name args kwargs. (Inr (), self))
          \<lparr>ob_type = immutable_list, ob_payload = [1, 2, 3 :: int]\<rparr> ''append'' [4 :: int] [])
     = Inl (NotImplementedError
         ([CHR 0x27] @ ''immutable_list'' @ [CHR 0x27] @ '' object does not support mutation. ''
            @ help_mutation))
 \<and> fst (call_method (\<lambda>found self name args kwargs. (Inr (), self))
          \<lparr>ob_type = immutable_list, ob_payload = [1, 2, 3 :: int]\<rparr> ''pop'' ([] :: int list) [])
     = Inl (NotImplementedError
         ([CHR 0x27] @ ''immutable_list'' @ [CHR 0x27] @ '' object does not support mutation. ''
            @ help_mutation))
 \<and> ''append'' \<noteq> ''pop''"
  by (simp add: call_method_def no_mutation_def immutable_list_unfold)

text \<open>
  C3, amended. For every blocked operation called on an instance of \<^verbatim>\<open>immutable_list\<close>
  or \<^verbatim>\<open>immutable_dict\<close>: whenever the call raises \<^verbatim>\<open>NotImplementedError\<close>, the message is
  the quoted name of the type of the object (\<^verbatim>\<open>'immutable_list'\<close> or
  \<^verbatim>\<open>'immutable_dict'\<close>), the words "object does not support mutation." and the fixed
  remediation text (create a new copy and assign the copy to the node); and the call
  does raise it with any positional arguments and any keyword arguments none of which
  is named \<open>self\<close>. The message depends on neither the operation nor the arguments. (A
  keyword argument named \<open>self\<close> cannot be bound: that call raises \<^verbatim>\<open>TypeError\<close>, not
  the error of \<^verbatim>\<open>_no_mutation\<close>.)
\<close>

theorem mutation_message_names_type_and_remedy:
  assumes "(ob_type c = immutable_list \<and>
            op \<in> set [''__delitem__'', ''__iadd__'', ''__imul__'', ''__setitem__'', ''append'',
              ''clear'', ''extend'', ''insert'', ''pop'', ''remove'', ''reverse'', ''sort''])
         \<or> (ob_type c = immutable_dict \<and>
            op \<in> set [''__delitem__'', ''__ior__'', ''__setitem__'', ''clear'', ''pop'',
              ''popitem'', ''setdefault'', ''update''])"
  shows "(''self'' \<notin> set (map fst kwargs) \<longrightarrow>
            fst (call_method rest c op args kwargs)
              = Inl (NotImplementedError
                  ([CHR 0x27] @ type_name (ob_type c) @ [CHR 0x27]
                     @ '' object does not support mutation. '' @ help_mutation)))
       \<and> (\<forall>message. fst (call_method rest c op args kwargs) = Inl (NotImplementedError message) \<longrightarrow>
            message = [CHR 0x27] @ type_name (ob_type c) @ [CHR 0x27]
                        @ '' object does not support mutation. '' @ help_mutation)
       \<and> type_name (ob_type c)
           = (if ob_type c = immutable_list then ''immutable_list'' else ''immutable_dict'')
       \<and> help_mutation =
            ''If you are attempting to modify the kwargs or args of a torch.fx.Node object,\<newline>'' @
            ''instead create a new copy of it and assign the copy to the node:\<newline>'' @
            ''    new_args = ... # copy and mutate args\<newline>'' @
            ''    node.args = new_args\<newline>''"
proof -
  from assms have "lookup_attr (ob_type c) op = Some NoMutation"
    using lookup_blocked_list [of op] lookup_blocked_dict [of op] by metis
  then have call: "call_method rest c op args kwargs = (no_mutation c args kwargs, c)"
    by (rule call_method_blocked)
  have raised_eq: "''self'' \<notin> set (map fst kwargs) \<longrightarrow>
            fst (call_method rest c op args kwargs)
              = Inl (NotImplementedError
                  ([CHR 0x27] @ type_name (ob_type c) @ [CHR 0x27]
                     @ '' object does not support mutation. '' @ help_mutation))"
    by (simp add: call no_mutation_def)
  have only_eq: "\<forall>message. fst (call_method rest c op args kwargs) = Inl (NotImplementedError message) \<longrightarrow>
            message = [CHR 0x27] @ type_name (ob_type c) @ [CHR 0x27]
                        @ '' object does not support mutation. '' @ help_mutation"
    by (simp add: call no_mutation_def)
  from assms have name_eq: "type_name (ob_type c)
           = (if ob_type c = immutable_list then ''immutable_list'' else ''immutable_dict'')"
    by (auto simp: immutable_list_unfold immutable_dict_unfold)
  have text_eq: "help_mutation =
            ''If you are attempting to modify the kwargs or args of a torch.fx.Node object,\<newline>'' @
            ''instead create a new copy of it and assign the copy to the node:\<newline>'' @
            ''    new_args = ... # copy and mutate args\<newline>'' @
            ''    node.args = new_args\<newline>''"
    by (simp only: help_mutation_def)
  from raised_eq only_eq name_eq text_eq show ?thesis
    by (intro conjI)
qed

text \<open>The witness: \<^verbatim>\<open>clear()\<close> on the immutable dict of the item \<open>("a", 1)\<close>.\<close>

theorem mutation_message_names_type_and_remedy_witness:
  "fst (call_method (\<lambda>found self name args kwargs. (Inr (), self\<lparr>ob_payload := []\<rparr>))
          \<lparr>ob_type = immutable_dict, ob_payload = [(''a'', 1 :: int)]\<rparr> ''clear'' ([] :: int list) [])
     = Inl (NotImplementedError
         ([CHR 0x27] @ ''immutable_dict'' @ [CHR 0x27] @ '' object does not support mutation. ''
            @ help_mutation))"
proof -
  let ?m = "\<lparr>ob_type = immutable_dict, ob_payload = [(''a'', 1 :: int)]\<rparr>"
  let ?rest = "\<lambda>(found :: func option) (self :: (string \<times> int) list pyobj) (name :: string)
                 (args :: int list) (kwargs :: (string \<times> int) list).
                 (Inr () :: pyerror + unit, self\<lparr>ob_payload := []\<rparr>)"
  have h: "(ob_type ?m = immutable_list \<and>
            ''clear'' \<in> set [''__delitem__'', ''__iadd__'', ''__imul__'', ''__setitem__'', ''append'',
              ''clear'', ''extend'', ''insert'', ''pop'', ''remove'', ''reverse'', ''sort''])
         \<or> (ob_type ?m = immutable_dict \<and>
            ''clear'' \<in> set [''__delitem__'', ''__ior__'', ''__setitem__'', ''clear'', ''pop'',
              ''popitem'', ''setdefault'', ''update''])"
    by simp
  have positional: "''self'' \<notin> set (map fst ([] :: (string \<times> int) list))"
    by simp
  have n: "immutable_dict \<noteq> immutable_list"
    using immutable_types_differ by simp
  from mutation_message_names_type_and_remedy [of ?m "''clear''" "[]" ?rest "[]", OF h] positional
  have "fst (call_method ?rest ?m ''clear'' [] [])
      = Inl (NotImplementedError
          ([CHR 0x27] @ type_name (ob_type ?m) @ [CHR 0x27]
             @ '' object does not support mutation. '' @ help_mutation))
    \<and> type_name (ob_type ?m)
      = (if ob_type ?m = immutable_list then ''immutable_list'' else ''immutable_dict'')"
    by blast
  with n show ?thesis
    by simp
qed

section \<open>Flatten and unflatten\<close>

text \<open>
  C1. For every instance \<open>x\<close> of \<^verbatim>\<open>immutable_list\<close> and every instance \<open>m\<close> of
  \<^verbatim>\<open>immutable_dict\<close> (a dict: its keys are pairwise different), the registered unflatten
  function, applied to the children and the context that the registered flatten
  function produced, returns a container of the same immutable type that compares
  equal to the original under \<^verbatim>\<open>==\<close>; in the model it is the original.
\<close>

theorem unflatten_flatten_roundtrip:
  "(ob_type (x :: 'v list pyobj) = immutable_list \<longrightarrow>
      (\<exists>y. unflatten_fn immutable_list_registration
             (fst (flatten_fn immutable_list_registration x))
             (snd (flatten_fn immutable_list_registration x))
           = Inr y
         \<and> ob_type y = immutable_list \<and> list_eq y x = Inr True \<and> y = x))
 \<and> (ob_type (m :: ('k \<times> 'v) list pyobj) = immutable_dict \<and> distinct (map fst (ob_payload m)) \<longrightarrow>
      (\<exists>y. unflatten_fn immutable_dict_registration
             (fst (flatten_fn immutable_dict_registration m))
             (snd (flatten_fn immutable_dict_registration m))
           = Inr y
         \<and> ob_type y = immutable_dict \<and> dict_eq y m = Inr True \<and> y = m))"
proof (intro conjI impI)
  assume t: "ob_type x = immutable_list"
  have "unflatten_fn immutable_list_registration
             (fst (flatten_fn immutable_list_registration x))
             (snd (flatten_fn immutable_list_registration x))
         = Inr \<lparr>ob_type = immutable_list, ob_payload = ob_payload x\<rparr>"
    by (simp add: immutable_list_registration_def register_pytree_node_def
        immutable_list_flatten_def immutable_list_unflatten_def list_flatten_def
        list_unflatten_def call_immutable_list)
  moreover have "\<lparr>ob_type = immutable_list, ob_payload = ob_payload x\<rparr> = x"
    using t by (rule pyobj_eqI)
  moreover have "list_eq x x = Inr True"
    using t by (simp add: list_eq_same_type)
  ultimately show "\<exists>y. unflatten_fn immutable_list_registration
             (fst (flatten_fn immutable_list_registration x))
             (snd (flatten_fn immutable_list_registration x))
           = Inr y
         \<and> ob_type y = immutable_list \<and> list_eq y x = Inr True \<and> y = x"
    using t by simp
next
  assume a: "ob_type m = immutable_dict \<and> distinct (map fst (ob_payload m))"
  then have t: "ob_type m = immutable_dict" and d: "distinct (map fst (ob_payload m))"
    by simp_all
  have "zip (map fst (ob_payload m)) (map snd (ob_payload m)) = ob_payload m"
    by (simp add: zip_map_fst_snd)
  then have "unflatten_fn immutable_dict_registration
             (fst (flatten_fn immutable_dict_registration m))
             (snd (flatten_fn immutable_dict_registration m))
         = Inr \<lparr>ob_type = immutable_dict, ob_payload = ob_payload m\<rparr>"
    using d by (simp add: immutable_dict_registration_def register_pytree_node_def
        immutable_dict_flatten_def immutable_dict_unflatten_def dict_flatten_def
        dict_unflatten_def call_immutable_dict py_dict_distinct)
  moreover have "\<lparr>ob_type = immutable_dict, ob_payload = ob_payload m\<rparr> = m"
    using t by (rule pyobj_eqI)
  moreover have "dict_eq m m = Inr True"
    using t d by (simp add: dict_eq_same_type dict_contents_eq_refl)
  ultimately show "\<exists>y. unflatten_fn immutable_dict_registration
             (fst (flatten_fn immutable_dict_registration m))
             (snd (flatten_fn immutable_dict_registration m))
           = Inr y
         \<and> ob_type y = immutable_dict \<and> dict_eq y m = Inr True \<and> y = m"
    using t by simp
qed

text \<open>
  The witness: the immutable list of 1, 2, 3 and the immutable dict of the items
  \<open>("a", 1)\<close>, \<open>("b", 2)\<close>.
\<close>

theorem unflatten_flatten_roundtrip_witness:
  "(\<exists>y. unflatten_fn immutable_list_registration
          (fst (flatten_fn immutable_list_registration
                  \<lparr>ob_type = immutable_list, ob_payload = [1, 2, 3 :: int]\<rparr>))
          (snd (flatten_fn immutable_list_registration
                  \<lparr>ob_type = immutable_list, ob_payload = [1, 2, 3 :: int]\<rparr>))
        = Inr y
      \<and> ob_type y = immutable_list
      \<and> list_eq y \<lparr>ob_type = immutable_list, ob_payload = [1, 2, 3 :: int]\<rparr> = Inr True
      \<and> y = \<lparr>ob_type = immutable_list, ob_payload = [1, 2, 3 :: int]\<rparr>)
 \<and> (\<exists>y. unflatten_fn immutable_dict_registration
          (fst (flatten_fn immutable_dict_registration
                  \<lparr>ob_type = immutable_dict, ob_payload = [(''a'', 1 :: int), (''b'', 2)]\<rparr>))
          (snd (flatten_fn immutable_dict_registration
                  \<lparr>ob_type = immutable_dict, ob_payload = [(''a'', 1 :: int), (''b'', 2)]\<rparr>))
        = Inr y
      \<and> ob_type y = immutable_dict
      \<and> dict_eq y \<lparr>ob_type = immutable_dict, ob_payload = [(''a'', 1 :: int), (''b'', 2)]\<rparr> = Inr True
      \<and> y = \<lparr>ob_type = immutable_dict, ob_payload = [(''a'', 1 :: int), (''b'', 2)]\<rparr>)"
  using unflatten_flatten_roundtrip
    [of "\<lparr>ob_type = immutable_list, ob_payload = [1, 2, 3 :: int]\<rparr>"
        "\<lparr>ob_type = immutable_dict, ob_payload = [(''a'', 1 :: int), (''b'', 2)]\<rparr>"]
  by simp

text \<open>
  C6. For every list-like container \<open>x\<close> and every dict-like container \<open>m\<close>, hence for
  the instances of the two immutable types: the children that the registered
  flatten-with-keys function returns, with the keypath token taken off each pair, are
  the children that the registered flatten function returns, in the same order, and
  the contexts agree. The tokens are the indices 0, 1, ... for \<^verbatim>\<open>immutable_list\<close> and
  the keys, in the order of the items, for \<^verbatim>\<open>immutable_dict\<close>.
\<close>

theorem flatten_with_keys_agrees_with_flatten:
  "map snd (fst (flatten_with_keys_fn immutable_list_registration (x :: 'v list pyobj)))
     = fst (flatten_fn immutable_list_registration x)
 \<and> map fst (fst (flatten_with_keys_fn immutable_list_registration x))
     = map SequenceKey [0..<length (ob_payload x)]
 \<and> snd (flatten_with_keys_fn immutable_list_registration x)
     = snd (flatten_fn immutable_list_registration x)
 \<and> map snd (fst (flatten_with_keys_fn immutable_dict_registration (m :: ('k \<times> 'v) list pyobj)))
     = fst (flatten_fn immutable_dict_registration m)
 \<and> map fst (fst (flatten_with_keys_fn immutable_dict_registration m))
     = map MappingKey (map fst (ob_payload m))
 \<and> snd (flatten_with_keys_fn immutable_dict_registration m)
     = snd (flatten_fn immutable_dict_registration m)"
proof -
  have l: "flatten_with_keys_fn immutable_list_registration x
       = (map (\<lambda>(i, child). (SequenceKey i, child)) (enumerate 0 (ob_payload x)),
          length (ob_payload x))"
    by (simp add: immutable_list_registration_def register_pytree_node_def
        list_flatten_with_keys_def list_flatten_def)
  have lf: "flatten_fn immutable_list_registration x = (ob_payload x, length (ob_payload x))"
    by (simp add: immutable_list_registration_def register_pytree_node_def
        immutable_list_flatten_def list_flatten_def)
  have d: "flatten_with_keys_fn immutable_dict_registration m
       = (map (\<lambda>(k, v). (MappingKey k, v)) (ob_payload m), map fst (ob_payload m))"
    by (simp add: immutable_dict_registration_def register_pytree_node_def
        dict_flatten_with_keys_def dict_flatten_def map_tokens_zip)
  have df: "flatten_fn immutable_dict_registration m
       = (map snd (ob_payload m), map fst (ob_payload m))"
    by (simp add: immutable_dict_registration_def register_pytree_node_def
        immutable_dict_flatten_def dict_flatten_def)
  have "map snd (map (\<lambda>(k, v). (MappingKey k, v)) (ob_payload m)) = map snd (ob_payload m)"
    by (induction "ob_payload m") auto
  moreover have "map fst (map (\<lambda>(k, v). (MappingKey k, v)) (ob_payload m))
      = map MappingKey (map fst (ob_payload m))"
    by (induction "ob_payload m") auto
  ultimately show ?thesis
    using map_fst_enumerate_tokens [of 0 "ob_payload x"]
    by (simp add: l lf d df map_snd_enumerate_tokens del: map_map)
qed

text \<open>
  C7. The immutable mapping constructed from \<^verbatim>\<open>{"a": 1, "b": 2}\<close>: flatten yields the
  children \<open>[1, 2]\<close> and the context \<open>["a", "b"]\<close>; flatten-with-keys yields the
  children 1 and 2 paired with the tokens of the keys \<open>"a"\<close> and \<open>"b"\<close>; unflatten of
  \<open>[10, 20]\<close> with the context \<open>["a", "b"]\<close> yields the immutable mapping of the items
  \<open>("a", 10)\<close>, \<open>("b", 20)\<close>, which compares equal to the plain dict
  \<^verbatim>\<open>{"a": 10, "b": 20}\<close>.
\<close>

theorem mapping_example:
  "call_dict_type immutable_dict [[(''a'', 1 :: int), (''b'', 2)]]
     = Inr \<lparr>ob_type = immutable_dict, ob_payload = [(''a'', 1), (''b'', 2)]\<rparr>
 \<and> flatten_fn immutable_dict_registration
       \<lparr>ob_type = immutable_dict, ob_payload = [(''a'', 1 :: int), (''b'', 2)]\<rparr>
     = ([1, 2], [''a'', ''b''])
 \<and> fst (flatten_with_keys_fn immutable_dict_registration
       \<lparr>ob_type = immutable_dict, ob_payload = [(''a'', 1 :: int), (''b'', 2)]\<rparr>)
     = [(MappingKey ''a'', 1), (MappingKey ''b'', 2)]
 \<and> unflatten_fn immutable_dict_registration [10 :: int, 20] [''a'', ''b'']
     = Inr \<lparr>ob_type = immutable_dict, ob_payload = [(''a'', 10), (''b'', 20)]\<rparr>
 \<and> dict_eq \<lparr>ob_type = immutable_dict, ob_payload = [(''a'', 10 :: int), (''b'', 20)]\<rparr>
       \<lparr>ob_type = Builtin PyDict, ob_payload = [(''a'', 10), (''b'', 20)]\<rparr> = Inr True"
proof -
  have eq: "dict_eq \<lparr>ob_type = immutable_dict, ob_payload = [(''a'', 10 :: int), (''b'', 20)]\<rparr>
       \<lparr>ob_type = Builtin PyDict, ob_payload = [(''a'', 10), (''b'', 20)]\<rparr> = Inr True"
    by (simp add: dict_eq_def dict_contents_eq_def immutable_dict_unfold)
  show ?thesis
    by (simp add: eq immutable_dict_registration_def register_pytree_node_def
        immutable_dict_flatten_def immutable_dict_unflatten_def dict_flatten_def
        dict_unflatten_def dict_flatten_with_keys_def call_immutable_dict py_dict_def
        dict_update_def)
qed

text \<open>
  C8. The serialized type names of the two registrations are the string constants
  written in the source, one per registered type, and they differ. Neither
  registration takes an argument, so the names depend on no input.
\<close>

theorem serialized_type_names_fixed_and_distinct:
  "serialized_type_name (immutable_list_registration :: ('v list pyobj, 'v, nat, sequence_key) registration)
     = ''torch.fx.immutable_collections.immutable_list''
 \<and> serialized_type_name (immutable_dict_registration :: (('k \<times> 'w) list pyobj, 'w, 'k list, 'k mapping_key) registration)
     = ''torch.fx.immutable_collections.immutable_dict''
 \<and> serialized_type_name (immutable_list_registration :: ('v list pyobj, 'v, nat, sequence_key) registration)
     \<noteq> serialized_type_name (immutable_dict_registration :: (('k \<times> 'w) list pyobj, 'w, 'k list, 'k mapping_key) registration)
 \<and> reg_type (immutable_list_registration :: ('v list pyobj, 'v, nat, sequence_key) registration) = immutable_list
 \<and> reg_type (immutable_dict_registration :: (('k \<times> 'w) list pyobj, 'w, 'k list, 'k mapping_key) registration) = immutable_dict"
  by (simp add: immutable_list_registration_def immutable_dict_registration_def
      register_pytree_node_def)

section \<open>The reduction hooks and equality with the base kind\<close>

text \<open>
  C5. For every instance \<open>c\<close> of \<^verbatim>\<open>immutable_list\<close> and every instance \<open>m\<close> of
  \<^verbatim>\<open>immutable_dict\<close> (a dict: its keys are pairwise different), the function stored under
  \<^verbatim>\<open>__reduce__\<close> returns the pair of the type itself and the one-element argument list
  that holds the tuple of the elements, or of the key/value pairs. Calling the type on
  these arguments runs the constructor inherited from the base kind (\<^verbatim>\<open>__init__\<close> is not
  among the blocked names), raises nothing, and returns an instance of the same type
  that compares equal to the original; in the model it is the original.
\<close>

theorem reduce_recreates_instance:
  "(ob_type (c :: 'v list pyobj) = immutable_list \<longrightarrow>
      lookup_attr (ob_type c) ''__reduce__'' = Some ListReduce
    \<and> immutable_list_reduce c = (immutable_list, [ob_payload c])
    \<and> lookup_attr (fst (immutable_list_reduce c)) ''__init__'' = None
    \<and> (\<exists>y. call_list_type (fst (immutable_list_reduce c)) (snd (immutable_list_reduce c)) = Inr y
           \<and> ob_type y = immutable_list \<and> list_eq y c = Inr True \<and> y = c))
 \<and> (ob_type (m :: ('k \<times> 'w) list pyobj) = immutable_dict \<and> distinct (map fst (ob_payload m)) \<longrightarrow>
      lookup_attr (ob_type m) ''__reduce__'' = Some DictReduce
    \<and> immutable_dict_reduce m = (immutable_dict, [ob_payload m])
    \<and> lookup_attr (fst (immutable_dict_reduce m)) ''__init__'' = None
    \<and> (\<exists>y. call_dict_type (fst (immutable_dict_reduce m)) (snd (immutable_dict_reduce m)) = Inr y
           \<and> ob_type y = immutable_dict \<and> dict_eq y m = Inr True \<and> y = m))"
proof (intro conjI impI)
  assume t: "ob_type c = immutable_list"
  then show "lookup_attr (ob_type c) ''__reduce__'' = Some ListReduce"
    by (simp add: lookup_special_list)
  from t show r: "immutable_list_reduce c = (immutable_list, [ob_payload c])"
    by (simp add: immutable_list_reduce_def)
  show "lookup_attr (fst (immutable_list_reduce c)) ''__init__'' = None"
    by (simp add: r lookup_special_list)
  have "\<lparr>ob_type = immutable_list, ob_payload = ob_payload c\<rparr> = c"
    using t by (rule pyobj_eqI)
  then have "call_list_type (fst (immutable_list_reduce c)) (snd (immutable_list_reduce c)) = Inr c"
    by (simp add: r call_immutable_list)
  moreover have "list_eq c c = Inr True"
    using t by (simp add: list_eq_same_type)
  ultimately show "\<exists>y. call_list_type (fst (immutable_list_reduce c)) (snd (immutable_list_reduce c)) = Inr y
           \<and> ob_type y = immutable_list \<and> list_eq y c = Inr True \<and> y = c"
    using t by blast
next
  assume a: "ob_type m = immutable_dict \<and> distinct (map fst (ob_payload m))"
  then have t: "ob_type m = immutable_dict" and d: "distinct (map fst (ob_payload m))"
    by simp_all
  from t show "lookup_attr (ob_type m) ''__reduce__'' = Some DictReduce"
    by (simp add: lookup_special_dict)
  from t show r: "immutable_dict_reduce m = (immutable_dict, [ob_payload m])"
    by (simp add: immutable_dict_reduce_def)
  show "lookup_attr (fst (immutable_dict_reduce m)) ''__init__'' = None"
    by (simp add: r lookup_special_dict)
  have "\<lparr>ob_type = immutable_dict, ob_payload = ob_payload m\<rparr> = m"
    using t by (rule pyobj_eqI)
  then have "call_dict_type (fst (immutable_dict_reduce m)) (snd (immutable_dict_reduce m)) = Inr m"
    using d by (simp add: r call_immutable_dict py_dict_distinct)
  moreover have "dict_eq m m = Inr True"
    using t d by (simp add: dict_eq_same_type dict_contents_eq_refl)
  ultimately show "\<exists>y. call_dict_type (fst (immutable_dict_reduce m)) (snd (immutable_dict_reduce m)) = Inr y
           \<and> ob_type y = immutable_dict \<and> dict_eq y m = Inr True \<and> y = m"
    using t by blast
qed

text \<open>
  The witness: the immutable list of 1, 2, 3 and the immutable dict of the items
  \<open>("a", 1)\<close>, \<open>("b", 2)\<close>.
\<close>

theorem reduce_recreates_instance_witness:
  "immutable_list_reduce \<lparr>ob_type = immutable_list, ob_payload = [1, 2, 3 :: int]\<rparr>
     = (immutable_list, [[1, 2, 3]])
 \<and> call_list_type immutable_list [[1, 2, 3 :: int]]
     = Inr \<lparr>ob_type = immutable_list, ob_payload = [1, 2, 3]\<rparr>
 \<and> immutable_dict_reduce \<lparr>ob_type = immutable_dict, ob_payload = [(''a'', 1 :: int), (''b'', 2)]\<rparr>
     = (immutable_dict, [[(''a'', 1), (''b'', 2)]])
 \<and> call_dict_type immutable_dict [[(''a'', 1 :: int), (''b'', 2)]]
     = Inr \<lparr>ob_type = immutable_dict, ob_payload = [(''a'', 1), (''b'', 2)]\<rparr>"
proof -
  let ?c = "\<lparr>ob_type = immutable_list, ob_payload = [1, 2, 3 :: int]\<rparr>"
  let ?m = "\<lparr>ob_type = immutable_dict, ob_payload = [(''a'', 1 :: int), (''b'', 2)]\<rparr>"
  have h1: "ob_type ?c = immutable_list"
    by simp
  have h2: "ob_type ?m = immutable_dict \<and> distinct (map fst (ob_payload ?m))"
    by simp
  from reduce_recreates_instance [of ?c ?m] h1
  have l: "immutable_list_reduce ?c = (immutable_list, [ob_payload ?c])
      \<and> (\<exists>y. call_list_type (fst (immutable_list_reduce ?c)) (snd (immutable_list_reduce ?c)) = Inr y
             \<and> y = ?c)"
    by blast
  from reduce_recreates_instance [of ?c ?m] h2
  have d: "immutable_dict_reduce ?m = (immutable_dict, [ob_payload ?m])
      \<and> (\<exists>y. call_dict_type (fst (immutable_dict_reduce ?m)) (snd (immutable_dict_reduce ?m)) = Inr y
             \<and> y = ?m)"
    by blast
  from l d show ?thesis
    by (elim conjE exE) simp
qed

text \<open>
  C9. For every sequence \<open>xs\<close>, the immutable list constructed from \<open>xs\<close> and the plain
  list constructed from \<open>xs\<close> compare equal with \<^verbatim>\<open>==\<close>, whichever operand comes first;
  for every sequence of key/value pairs \<open>ps\<close>, so do the immutable dict and the plain
  dict constructed from \<open>ps\<close>. Neither class defines \<^verbatim>\<open>__eq__\<close>: the comparison is the
  one inherited from the base kind.
\<close>

theorem immutable_equals_plain:
  "(\<exists>a b. call_list_type immutable_list [xs] = Inr a
         \<and> call_list_type (Builtin PyList) [xs] = Inr b
         \<and> ob_type a = immutable_list \<and> ob_type b = Builtin PyList
         \<and> ob_payload a = xs \<and> ob_payload b = xs
         \<and> list_eq a b = Inr True \<and> list_eq b a = Inr True)
 \<and> (\<exists>a b. call_dict_type immutable_dict [ps] = Inr a
         \<and> call_dict_type (Builtin PyDict) [ps] = Inr b
         \<and> ob_type a = immutable_dict \<and> ob_type b = Builtin PyDict
         \<and> ob_payload a = py_dict ps \<and> ob_payload b = py_dict ps
         \<and> dict_eq a b = Inr True \<and> dict_eq b a = Inr True)
 \<and> lookup_attr immutable_list ''__eq__'' = None
 \<and> lookup_attr immutable_dict ''__eq__'' = None"
  by (simp add: call_immutable_list call_immutable_dict call_list_type_def call_dict_type_def
      list_eq_def dict_eq_def lookup_special_list lookup_special_dict immutable_list_unfold
      immutable_dict_unfold dict_contents_eq_refl distinct_py_dict)

section \<open>Hashing and equality\<close>

text \<open>
  C4 fails on the code for \<^verbatim>\<open>immutable_dict\<close>. The immutable dicts constructed from
  \<^verbatim>\<open>{1: 1, 2: 2}\<close> and from \<^verbatim>\<open>{2: 2, 1: 1}\<close> compare equal, since \<^verbatim>\<open>dict.__eq__\<close> ignores
  the order of the items; their hashes are the hashes of the tuples
  \<^verbatim>\<open>((1, 1), (2, 2))\<close> and \<^verbatim>\<open>((2, 2), (1, 1))\<close>, which are -8776456120005063762 and
  -7935051234828755235 as signed 64-bit integers.
\<close>

theorem equal_immutable_dicts_hash_differently:
  "call_dict_type immutable_dict [[(1 :: int, 1 :: int), (2, 2)]]
     = Inr \<lparr>ob_type = immutable_dict, ob_payload = [(1, 1), (2, 2)]\<rparr>
 \<and> call_dict_type immutable_dict [[(2 :: int, 2 :: int), (1, 1)]]
     = Inr \<lparr>ob_type = immutable_dict, ob_payload = [(2, 2), (1, 1)]\<rparr>
 \<and> dict_eq \<lparr>ob_type = immutable_dict, ob_payload = [(1 :: int, 1 :: int), (2, 2)]\<rparr>
       \<lparr>ob_type = immutable_dict, ob_payload = [(2, 2), (1, 1)]\<rparr> = Inr True
 \<and> hash_dict long_hash (Inr \<circ> long_hash)
       \<lparr>ob_type = immutable_dict, ob_payload = [(1 :: int, 1 :: int), (2, 2)]\<rparr>
     = Inr 9670287953704487854
 \<and> hash_dict long_hash (Inr \<circ> long_hash)
       \<lparr>ob_type = immutable_dict, ob_payload = [(2 :: int, 2 :: int), (1, 1)]\<rparr>
     = Inr 10511692838880796381
 \<and> hash_dict long_hash (Inr \<circ> long_hash)
       \<lparr>ob_type = immutable_dict, ob_payload = [(1 :: int, 1 :: int), (2, 2)]\<rparr>
     \<noteq> hash_dict long_hash (Inr \<circ> long_hash)
       \<lparr>ob_type = immutable_dict, ob_payload = [(2 :: int, 2 :: int), (1, 1)]\<rparr>"
  by (simp add: hash_dict_12 hash_dict_21 dict_eq_12_21 call_immutable_dict py_dict_def
      dict_update_def)

text \<open>
  C10. For every instance \<open>c\<close> of \<^verbatim>\<open>immutable_list\<close>, \<^verbatim>\<open>hash(c)\<close> is the hash of the tuple of
  its elements in order, and it raises exactly when hashing some element raises. For
  every instance \<open>m\<close> of \<^verbatim>\<open>immutable_dict\<close>, \<^verbatim>\<open>hash(m)\<close> is the hash of the tuple of its
  (key, value) pairs in insertion order, and it raises exactly when hashing some pair
  raises. The hash of an immutable dict depends on the insertion order: there are two
  immutable dicts with the same items in reverse order and different hashes.
\<close>

theorem hash_is_tuple_hash:
  "(ob_type (c :: 'v list pyobj) = immutable_list \<longrightarrow>
      hash_list hv c = tuplehash (map hv (ob_payload c))
    \<and> (isl (hash_list hv c) \<longleftrightarrow> (\<exists>x \<in> set (ob_payload c). isl (hv x))))
 \<and> (ob_type (m :: ('k \<times> 'w) list pyobj) = immutable_dict \<longrightarrow>
      hash_dict hk hw m
        = tuplehash (map (\<lambda>(k, v). tuplehash [Inr (hk k), hw v]) (ob_payload m))
    \<and> (isl (hash_dict hk hw m)
         \<longleftrightarrow> (\<exists>(k, v) \<in> set (ob_payload m). isl (tuplehash [Inr (hk k), hw v]))))
 \<and> (\<exists>m1 m2 :: (int \<times> int) list pyobj.
      ob_type m1 = immutable_dict \<and> ob_type m2 = immutable_dict
    \<and> ob_payload m2 = rev (ob_payload m1)
    \<and> hash_dict long_hash (Inr \<circ> long_hash) m1 \<noteq> hash_dict long_hash (Inr \<circ> long_hash) m2)"
proof (intro conjI impI)
  assume t: "ob_type c = immutable_list"
  then show "hash_list hv c = tuplehash (map hv (ob_payload c))"
    by (rule hash_immutable_list)
  then show "isl (hash_list hv c) \<longleftrightarrow> (\<exists>x \<in> set (ob_payload c). isl (hv x))"
    by (simp add: isl_tuplehash_map)
next
  assume t: "ob_type m = immutable_dict"
  then show h: "hash_dict hk hw m
        = tuplehash (map (\<lambda>(k, v). tuplehash [Inr (hk k), hw v]) (ob_payload m))"
    by (rule hash_immutable_dict)
  show "isl (hash_dict hk hw m)
         \<longleftrightarrow> (\<exists>(k, v) \<in> set (ob_payload m). isl (tuplehash [Inr (hk k), hw v]))"
    unfolding h
    using isl_tuplehash_map [of "\<lambda>(k, v). tuplehash [Inr (hk k), hw v]" "ob_payload m"]
    by (simp add: case_prod_unfold)
next
  have "hash_dict long_hash (Inr \<circ> long_hash)
          \<lparr>ob_type = immutable_dict, ob_payload = [(1 :: int, 1 :: int), (2, 2)]\<rparr>
      \<noteq> hash_dict long_hash (Inr \<circ> long_hash)
          \<lparr>ob_type = immutable_dict, ob_payload = [(2 :: int, 2 :: int), (1, 1)]\<rparr>"
    by (simp add: hash_dict_12 hash_dict_21)
  then show "\<exists>m1 m2 :: (int \<times> int) list pyobj.
      ob_type m1 = immutable_dict \<and> ob_type m2 = immutable_dict
    \<and> ob_payload m2 = rev (ob_payload m1)
    \<and> hash_dict long_hash (Inr \<circ> long_hash) m1 \<noteq> hash_dict long_hash (Inr \<circ> long_hash) m2"
    by (intro exI [of _ "\<lparr>ob_type = immutable_dict, ob_payload = [(1 :: int, 1 :: int), (2, 2)]\<rparr>"]
        exI [of _ "\<lparr>ob_type = immutable_dict, ob_payload = [(2 :: int, 2 :: int), (1, 1)]\<rparr>"]) simp
qed

text \<open>
  The witness: the immutable list of 1, 2, 3, whose hash is that of \<^verbatim>\<open>(1, 2, 3)\<close>, and the
  immutable dict of the items \<open>(1, 1)\<close>, \<open>(2, 2)\<close>.
\<close>

theorem hash_is_tuple_hash_witness:
  "hash_list (Inr \<circ> long_hash) \<lparr>ob_type = immutable_list, ob_payload = [1, 2, 3 :: int]\<rparr>
     = Inr 529344067295497451
 \<and> \<not> isl (hash_list (Inr \<circ> long_hash) \<lparr>ob_type = immutable_list, ob_payload = [1, 2, 3 :: int]\<rparr>)
 \<and> hash_dict long_hash (Inr \<circ> long_hash)
       \<lparr>ob_type = immutable_dict, ob_payload = [(1 :: int, 1 :: int), (2, 2)]\<rparr>
     = Inr 9670287953704487854"
proof -
  let ?c = "\<lparr>ob_type = immutable_list, ob_payload = [1, 2, 3 :: int]\<rparr>"
  let ?m = "\<lparr>ob_type = immutable_dict, ob_payload = [(1 :: int, 1 :: int), (2, 2)]\<rparr>"
  have h1: "ob_type ?c = immutable_list"
    by simp
  have h2: "ob_type ?m = immutable_dict"
    by simp
  from hash_is_tuple_hash [of ?c "Inr \<circ> long_hash" ?m long_hash "Inr \<circ> long_hash"] h1
  have l: "hash_list (Inr \<circ> long_hash) ?c = tuplehash (map (Inr \<circ> long_hash) (ob_payload ?c))"
    by blast
  from hash_is_tuple_hash [of ?c "Inr \<circ> long_hash" ?m long_hash "Inr \<circ> long_hash"] h2
  have d: "hash_dict long_hash (Inr \<circ> long_hash) ?m
      = tuplehash (map (\<lambda>(k, v). tuplehash [Inr (long_hash k), (Inr \<circ> long_hash) v])
          (ob_payload ?m))"
    by blast
  have "hash_list (Inr \<circ> long_hash) ?c = Inr 529344067295497451"
    unfolding l
    by (simp add: long_hash_small tuplehash_def XXROTATE_def XXPRIME_1_def XXPRIME_2_def
        XXPRIME_5_def)
  moreover have "hash_dict long_hash (Inr \<circ> long_hash) ?m = Inr 9670287953704487854"
    unfolding d
    by (simp add: long_hash_small tuplehash_def XXROTATE_def XXPRIME_1_def XXPRIME_2_def
        XXPRIME_5_def)
  ultimately show ?thesis
    by simp
qed

end
